theory Spec2Isabelle
  imports Main "HOL-Library.Word"
begin

unbundle bit_operations_syntax

section \<open>Platform constants\<close>

text \<open>
  The service framework is written against the Windows SDK.  The numeric values of the
  SDK macros are not part of the repository; they are fixed here as the SDK headers
  (winsvc.h, wincon.h, winerror.h) define them.  A \<open>DWORD\<close> is a 32-bit word.
\<close>

type_synonym DWORD = "32 word"

definition SERVICE_STOPPED :: DWORD where "SERVICE_STOPPED = 1"
definition SERVICE_START_PENDING :: DWORD where "SERVICE_START_PENDING = 2"
definition SERVICE_STOP_PENDING :: DWORD where "SERVICE_STOP_PENDING = 3"
definition SERVICE_RUNNING :: DWORD where "SERVICE_RUNNING = 4"
definition SERVICE_CONTINUE_PENDING :: DWORD where "SERVICE_CONTINUE_PENDING = 5"
definition SERVICE_PAUSE_PENDING :: DWORD where "SERVICE_PAUSE_PENDING = 6"
definition SERVICE_PAUSED :: DWORD where "SERVICE_PAUSED = 7"

definition SERVICE_ACCEPT_STOP :: DWORD where "SERVICE_ACCEPT_STOP = 1"
definition SERVICE_WIN32_OWN_PROCESS :: DWORD where "SERVICE_WIN32_OWN_PROCESS = 16"

definition SERVICE_CONTROL_STOP :: DWORD where "SERVICE_CONTROL_STOP = 1"
definition SERVICE_CONTROL_PAUSE :: DWORD where "SERVICE_CONTROL_PAUSE = 2"
definition SERVICE_CONTROL_CONTINUE :: DWORD where "SERVICE_CONTROL_CONTINUE = 3"
definition SERVICE_CONTROL_INTERROGATE :: DWORD where "SERVICE_CONTROL_INTERROGATE = 4"
definition SERVICE_CONTROL_SHUTDOWN :: DWORD where "SERVICE_CONTROL_SHUTDOWN = 5"
definition SERVICE_CONTROL_DEVICEEVENT :: DWORD where "SERVICE_CONTROL_DEVICEEVENT = 11"
definition SERVICE_CONTROL_HARDWAREPROFILECHANGE :: DWORD where
  "SERVICE_CONTROL_HARDWAREPROFILECHANGE = 12"
definition SERVICE_CONTROL_POWEREVENT :: DWORD where "SERVICE_CONTROL_POWEREVENT = 13"
definition SERVICE_CONTROL_SESSIONCHANGE :: DWORD where "SERVICE_CONTROL_SESSIONCHANGE = 14"
definition SERVICE_CONTROL_PRESHUTDOWN :: DWORD where "SERVICE_CONTROL_PRESHUTDOWN = 15"

definition CTRL_C_EVENT :: DWORD where "CTRL_C_EVENT = 0"
definition CTRL_BREAK_EVENT :: DWORD where "CTRL_BREAK_EVENT = 1"
definition CTRL_CLOSE_EVENT :: DWORD where "CTRL_CLOSE_EVENT = 2"
definition CTRL_LOGOFF_EVENT :: DWORD where "CTRL_LOGOFF_EVENT = 5"
definition CTRL_SHUTDOWN_EVENT :: DWORD where "CTRL_SHUTDOWN_EVENT = 6"

definition NO_ERROR :: DWORD where "NO_ERROR = 0"
definition S_OK :: DWORD where "S_OK = 0"

section \<open>C runtime strings and buffers\<close>

text \<open>
  Characters of both widths are \<open>char\<close>; a C string is the list of its characters
  without the terminator.  A character array is a list of the array's length, and the
  string it holds is read up to the first terminator.  The secure CRT functions call the
  invalid-parameter handler when the destination is too small, which ends the
  process; that outcome is the error value \<open>InvalidParameter\<close>.
\<close>

datatype crt_error = InvalidParameter | SignedOverflow | OutOfBounds

definition NUL :: char where "NUL = CHR 0x00"

definition c_str :: "char list \<Rightarrow> string" where
  "c_str buf = takeWhile (\<lambda>c. c \<noteq> NUL) buf"

definition ZeroMemory :: "nat \<Rightarrow> char list" where
  "ZeroMemory n = replicate n NUL"

definition wcscpy_s :: "char list \<Rightarrow> string \<Rightarrow> crt_error + char list" where
  "wcscpy_s dest src =
     (if length src < length dest
      then Inr (src @ [NUL] @ drop (length src + 1) dest)
      else Inl InvalidParameter)"

section \<open>The logging core (Logger)\<close>

text \<open>
  The members of \<open>Logger\<close>.  \<open>actualwrite\<close> is pure virtual: the text handed to it,
  call by call, is \<open>written\<close>.  \<open>sync_entered\<close> counts how often the critical section
  \<open>sync_\<close> has been entered.  \<open>time_t\<close> and the level are integers.
\<close>

record Logger =
  lastmsgtime :: int
  level :: int
  written :: "string list"
  sync_entered :: nat

definition LOG_LEVEL_ERROR :: int where "LOG_LEVEL_ERROR = 10"
definition LOG_LEVEL_WARNING :: int where "LOG_LEVEL_WARNING = 100"
definition LOG_LEVEL_INFORMATION :: int where "LOG_LEVEL_INFORMATION = 1000"
definition LOG_LEVEL_DEBUG :: int where "LOG_LEVEL_DEBUG = 10000"
definition LOG_LEVEL_VERBOSE :: int where "LOG_LEVEL_VERBOSE = 100000"

text \<open>The constructor; the flag says whether \<open>_DEBUG\<close> is defined for the build.\<close>

definition Logger_ctor :: "bool \<Rightarrow> Logger" where
  "Logger_ctor debug_build =
     \<lparr>lastmsgtime = 0,
      level = (if debug_build then LOG_LEVEL_DEBUG else LOG_LEVEL_WARNING),
      written = [], sync_entered = 0\<rparr>"

definition setLevel :: "int \<Rightarrow> Logger \<Rightarrow> Logger" where
  "setLevel l lg = lg\<lparr>level := l\<rparr>"

definition getLevel :: "Logger \<Rightarrow> int" where
  "getLevel lg = level lg"

definition actualwrite :: "string \<Rightarrow> Logger \<Rightarrow> Logger" where
  "actualwrite msg lg = lg\<lparr>written := written lg @ [msg]\<rparr>"

subsection \<open>Formatted output\<close>

text \<open>
  The conversions of the \<open>printf\<close> family that the sources use: \<open>%d\<close>, \<open>%4d\<close>
  (right-justified in a minimum width, padded with blanks), \<open>%04d\<close> and \<open>%02d\<close>
  (padded with zeros after the sign) and \<open>%-12s\<close> (left-justified in a minimum
  width).  \<open>swprintf_s\<close> stores the rendered text when it fits the buffer together
  with its terminator.
\<close>

definition digit_char :: "nat \<Rightarrow> char" where
  "digit_char d = ''0123456789'' ! d"

fun digits :: "nat \<Rightarrow> string" where
  "digits n = (if n < 10 then [digit_char n] else digits (n div 10) @ [digit_char (n mod 10)])"

definition fmt_d :: "int \<Rightarrow> string" where
  "fmt_d i = (if i < 0 then CHR ''-'' # digits (nat (- i)) else digits (nat i))"

definition fmt_d_width :: "nat \<Rightarrow> int \<Rightarrow> string" where
  "fmt_d_width w i = replicate (w - length (fmt_d i)) CHR '' '' @ fmt_d i"

definition fmt_0d :: "nat \<Rightarrow> int \<Rightarrow> string" where
  "fmt_0d w i =
     (if i < 0
      then CHR ''-'' # replicate (w - 1 - length (digits (nat (- i)))) CHR ''0'' @ digits (nat (- i))
      else replicate (w - length (digits (nat i))) CHR ''0'' @ digits (nat i))"

definition fmt_s_left :: "nat \<Rightarrow> string \<Rightarrow> string" where
  "fmt_s_left w s = s @ replicate (w - length s) CHR '' ''"

definition swprintf_s :: "nat \<Rightarrow> string \<Rightarrow> crt_error + string" where
  "swprintf_s nChars rendered =
     (if length rendered < nChars then Inr rendered else Inl InvalidParameter)"

text \<open>Division of C integers truncates towards zero.\<close>

definition c_div :: "int \<Rightarrow> int \<Rightarrow> int" where
  "c_div a b = sgn a * sgn b * (\<bar>a\<bar> div \<bar>b\<bar>)"

subsection \<open>Time stamps and records\<close>

definition MAX_LOG_MESSAGE_LEN :: nat where "MAX_LOG_MESSAGE_LEN = 4096"
definition MAX_TAG_LEN :: nat where "MAX_TAG_LEN = 12"

text \<open>
  \<open>struct tm\<close> of the C library, and what the platform hands to one call of the logger:
  the value of \<open>::time(NULL)\<close>, the broken-down local time that \<open>localtime_s\<close> gives
  for the time stamp, the value of \<open>_get_timezone\<close> in seconds, the identifier of the
  calling thread, and what \<open>MultiByteToWideChar\<close> leaves in a destination of the given
  capacity.
\<close>

record tm =
  tm_sec :: int
  tm_min :: int
  tm_hour :: int
  tm_mday :: int
  tm_mon :: int
  tm_year :: int
  tm_wday :: int
  tm_yday :: int
  tm_isdst :: int

record platform =
  time_now :: int
  localtime_s :: tm
  get_timezone :: int
  GetCurrentThreadId :: DWORD
  MultiByteToWideChar :: "string \<Rightarrow> nat \<Rightarrow> string"

definition getTimeStamp :: "platform \<Rightarrow> nat \<Rightarrow> crt_error + string" where
  "getTimeStamp pf nChars =
     (let lnow = localtime_s pf;
          zone = get_timezone pf;
          zonemins = c_div zone 60;
          zonemins = (if zonemins < 0 then zonemins * - 1 else zonemins)
      in swprintf_s nChars
           (fmt_0d 4 (1900 + tm_year lnow) @ ''/'' @ fmt_0d 2 (tm_mon lnow) @ ''/''
            @ fmt_0d 2 (tm_mday lnow) @ '' '' @ fmt_0d 2 (tm_hour lnow) @ '':''
            @ fmt_0d 2 (tm_min lnow) @ '':'' @ fmt_0d 2 (tm_sec lnow)
            @ '' UTC'' @ [if zone \<ge> 0 then CHR ''-'' else CHR ''+'']
            @ fmt_d zonemins @ ''mins''))"

definition CRLF :: string where
  "CRLF = [CHR 0x0D, CHR 0x0A]"

text \<open>
  \<open>writecomposed\<close>.  The level test comes first; the lock is taken after it.  The two
  \<open>swprintf_s\<close> calls write into arrays of 64 and of
  \<open>MAX_LOG_MESSAGE_LEN + MAX_TAG_LEN + 7\<close> elements.
\<close>

definition writecomposed ::
  "platform \<Rightarrow> int \<Rightarrow> string \<Rightarrow> string \<Rightarrow> Logger \<Rightarrow> crt_error + Logger" where
  "writecomposed pf lvl tag msg lg =
     (if lvl > getLevel lg then Inr lg
      else
        (let lg1 = lg\<lparr>sync_entered := sync_entered lg + 1\<rparr>;
             now = time_now pf
         in case (if now \<noteq> lastmsgtime lg1
                  then (case getTimeStamp pf 64 of
                          Inl e \<Rightarrow> Inl e
                        | Inr szTime \<Rightarrow>
                            Inr ((actualwrite CRLF (actualwrite szTime lg1))
                                   \<lparr>lastmsgtime := now\<rparr>))
                  else Inr lg1) of
              Inl e \<Rightarrow> Inl e
            | Inr lg2 \<Rightarrow>
                (case swprintf_s (MAX_LOG_MESSAGE_LEN + MAX_TAG_LEN + 7)
                        (fmt_s_left 12 tag @ '' ''
                         @ fmt_d_width 4 (sint (GetCurrentThreadId pf)) @ '' '' @ msg) of
                   Inl e \<Rightarrow> Inl e
                 | Inr finalmsg \<Rightarrow> Inr (actualwrite finalmsg lg2))))"

text \<open>
  The two overloads of \<open>write\<close>.  The one for \<open>char\<close> converts the message into a
  zeroed array of \<open>MAX_LOG_MESSAGE_LEN + 1\<close> wide characters, of which the conversion
  may fill \<open>MAX_LOG_MESSAGE_LEN\<close>, before it calls \<open>writecomposed\<close>.
\<close>

definition write_char ::
  "platform \<Rightarrow> int \<Rightarrow> string \<Rightarrow> string \<Rightarrow> Logger \<Rightarrow> crt_error + Logger" where
  "write_char pf lvl tag msg lg =
     (let converted = take MAX_LOG_MESSAGE_LEN (MultiByteToWideChar pf msg MAX_LOG_MESSAGE_LEN);
          szMsg = converted @ drop (length converted) (ZeroMemory (MAX_LOG_MESSAGE_LEN + 1))
      in writecomposed pf lvl tag (c_str szMsg) lg)"

definition write_wchar_t ::
  "platform \<Rightarrow> int \<Rightarrow> string \<Rightarrow> string \<Rightarrow> Logger \<Rightarrow> crt_error + Logger" where
  "write_wchar_t pf lvl tag msg lg = writecomposed pf lvl tag msg lg"

subsection \<open>Concrete inputs of the logger\<close>

text \<open>
  A call of the logger on 15 January 2024 at 10:00:00 local time, five and a half hours
  east of UTC, from thread 1234, on a platform whose code page maps every character to
  itself.
\<close>

definition jan15 :: platform where
  "jan15 =
     \<lparr>time_now = 1705293000,
      localtime_s = \<lparr>tm_sec = 0, tm_min = 0, tm_hour = 10, tm_mday = 15, tm_mon = 0,
                      tm_year = 124, tm_wday = 1, tm_yday = 14, tm_isdst = 0\<rparr>,
      get_timezone = - 19800,
      GetCurrentThreadId = 1234,
      MultiByteToWideChar = (\<lambda>msg n. take n msg)\<rparr>"

section \<open>The tagged writer (LogWriter)\<close>

text \<open>
  The writer holds its tag in an array of \<open>MAX_TAG_LEN + 1\<close> characters, which the
  constructor fills with \<open>wcscpy_s\<close>; \<open>mem\<close> is what the array holds before.  The
  logger the writer refers to is passed along.
\<close>

record LogWriter =
  szTag :: "char list"

definition LogWriter_ctor :: "char list \<Rightarrow> string \<Rightarrow> crt_error + LogWriter" where
  "LogWriter_ctor mem lpszTag =
     (case wcscpy_s mem lpszTag of
        Inl e \<Rightarrow> Inl e
      | Inr tag \<Rightarrow> Inr \<lparr>szTag = tag\<rparr>)"

text \<open>
  The format string and the variable arguments of \<open>write\<close> are passed on to the C
  library.  How the library renders them is not part of the repository and is the
  parameter \<open>vformat\<close>: the rendered text, or the failure of a format that the library
  rejects (a missing or malformed one), which ends in the invalid-parameter handler.
\<close>

datatype vararg = IntArg int | StrArg string | CharArg char






subsection \<open>Concrete inputs of the writer\<close>





section \<open>Rollover of log files (FileLogger)\<close>






text \<open>The name rendered by the format \<open>%s%s_%d%s\<close>.\<close>

definition rollname :: "string \<Rightarrow> string \<Rightarrow> string \<Rightarrow> nat \<Rightarrow> string" where
  "rollname szPath szName szExt index = szPath @ szName @ ''_'' @ fmt_d (int index) @ szExt"






subsection \<open>A concrete rollover\<close>










section \<open>The service controller (TConsoleService)\<close>

subsection \<open>State\<close>

text \<open>
  \<open>SERVICE_STATUS\<close> is the SDK structure held in the member \<open>status_\<close>.  The class
  members keep their names without the trailing underscore.  The quit event is a
  manual-reset event created unsignalled; \<open>hEventQuit\<close> is its signalled state.  A
  \<open>NULL\<close> status handle is \<open>None\<close>.

  Calls into the operating system that the claims talk about are recorded, in program
  order, in \<open>os_calls\<close>: every \<open>::SetServiceStatus\<close> report with the handle and the
  status structure passed, every \<open>::SetEvent\<close> on the quit event, the installation of
  the console handler and the operator hint printed by \<open>_putws\<close>.
\<close>

record SERVICE_STATUS =
  dwServiceType :: DWORD
  dwCurrentState :: DWORD
  dwControlsAccepted :: DWORD
  dwWin32ExitCode :: DWORD
  dwServiceSpecificExitCode :: DWORD
  dwCheckPoint :: DWORD
  dwWaitHint :: DWORD

datatype os_call =
    SetServiceStatus_call "nat option" SERVICE_STATUS
  | SetEvent_call
  | SetConsoleCtrlHandler_call
  | putws_call string

record TConsoleService =
  szServiceName :: "char list"
  hServiceStatus :: "nat option"
  hEventQuit :: bool
  status :: SERVICE_STATUS
  fDebugMode :: bool
  logger :: Logger
  os_calls :: "os_call list"

definition isDebugMode :: "TConsoleService \<Rightarrow> bool" where
  "isDebugMode s = fDebugMode s"

subsection \<open>setServiceStatus and the control callbacks\<close>

definition setServiceStatus :: "DWORD \<Rightarrow> TConsoleService \<Rightarrow> TConsoleService" where
  "setServiceStatus dwState s =
     (let st1 = (status s)\<lparr>dwCurrentState := dwState\<rparr>;
          st2 = (if dwState = SERVICE_START_PENDING
                 then st1\<lparr>dwControlsAccepted := 0\<rparr>
                 else st1\<lparr>dwControlsAccepted := dwControlsAccepted st1 OR SERVICE_ACCEPT_STOP\<rparr>);
          s1 = s\<lparr>status := st2\<rparr>
      in if \<not> isDebugMode s1
         then s1\<lparr>os_calls := os_calls s1 @ [SetServiceStatus_call (hServiceStatus s1) st2]\<rparr>
         else s1)"

definition SetEvent :: "TConsoleService \<Rightarrow> TConsoleService" where
  "SetEvent s = s\<lparr>hEventQuit := True, os_calls := os_calls s @ [SetEvent_call]\<rparr>"

definition onStop :: "TConsoleService \<Rightarrow> TConsoleService" where
  "onStop s = SetEvent (setServiceStatus SERVICE_STOP_PENDING s)"

definition onPause :: "TConsoleService \<Rightarrow> TConsoleService" where
  "onPause s = s"

definition onContinue :: "TConsoleService \<Rightarrow> TConsoleService" where
  "onContinue s = s"

definition onInterrogate :: "TConsoleService \<Rightarrow> TConsoleService" where
  "onInterrogate s = s"

definition onPreShutdown :: "nat \<Rightarrow> TConsoleService \<Rightarrow> DWORD \<times> TConsoleService" where
  "onPreShutdown pInfo s = (NO_ERROR, s)"

definition onShutdown :: "TConsoleService \<Rightarrow> TConsoleService" where
  "onShutdown s = s"

definition onDeviceEvent :: "DWORD \<Rightarrow> nat \<Rightarrow> TConsoleService \<Rightarrow> DWORD \<times> TConsoleService" where
  "onDeviceEvent dwDBT pHdr s = (NO_ERROR, s)"

definition onHardwareProfileChange :: "DWORD \<Rightarrow> TConsoleService \<Rightarrow> DWORD \<times> TConsoleService" where
  "onHardwareProfileChange dwDBT s = (NO_ERROR, s)"

definition onSessionChange :: "DWORD \<Rightarrow> nat \<Rightarrow> TConsoleService \<Rightarrow> DWORD \<times> TConsoleService" where
  "onSessionChange dwEvent pSession s = (NO_ERROR, s)"

definition onPowerEvent :: "DWORD \<Rightarrow> nat \<Rightarrow> TConsoleService \<Rightarrow> DWORD \<times> TConsoleService" where
  "onPowerEvent dwEvent pSetting s = (NO_ERROR, s)"

definition onUnknownRequest :: "DWORD \<Rightarrow> TConsoleService \<Rightarrow> TConsoleService" where
  "onUnknownRequest dwControl s = s"

text \<open>
  The control dispatch.  \<open>dwRet\<close> starts as \<open>NO_ERROR\<close>; the callbacks declared
  \<open>void\<close> leave it alone.  The event payload \<open>lpEventData\<close> is an address.
\<close>

definition serviceControlHandlerEx ::
  "DWORD \<Rightarrow> DWORD \<Rightarrow> nat \<Rightarrow> TConsoleService \<Rightarrow> DWORD \<times> TConsoleService" where
  "serviceControlHandlerEx dwControl dwEventType lpEventData s =
     (if dwControl = SERVICE_CONTROL_STOP then (NO_ERROR, onStop s)
      else if dwControl = SERVICE_CONTROL_PAUSE then (NO_ERROR, onPause s)
      else if dwControl = SERVICE_CONTROL_CONTINUE then (NO_ERROR, onContinue s)
      else if dwControl = SERVICE_CONTROL_INTERROGATE then (NO_ERROR, onInterrogate s)
      else if dwControl = SERVICE_CONTROL_PRESHUTDOWN then onPreShutdown lpEventData s
      else if dwControl = SERVICE_CONTROL_SHUTDOWN then (NO_ERROR, onShutdown s)
      else if dwControl = SERVICE_CONTROL_DEVICEEVENT then onDeviceEvent dwEventType lpEventData s
      else if dwControl = SERVICE_CONTROL_HARDWAREPROFILECHANGE
        then onHardwareProfileChange dwEventType s
      else if dwControl = SERVICE_CONTROL_SESSIONCHANGE
        then onSessionChange dwEventType lpEventData s
      else if dwControl = SERVICE_CONTROL_POWEREVENT then onPowerEvent dwEventType lpEventData s
      else (NO_ERROR, onUnknownRequest dwControl s))"

text \<open>The console handler returns \<open>TRUE\<close> or \<open>FALSE\<close>.\<close>

definition consoleCtrlHandler :: "DWORD \<Rightarrow> TConsoleService \<Rightarrow> bool \<times> TConsoleService" where
  "consoleCtrlHandler dwCtrlType s =
     (if dwCtrlType = CTRL_C_EVENT \<or> dwCtrlType = CTRL_BREAK_EVENT
         \<or> dwCtrlType = CTRL_SHUTDOWN_EVENT
      then (True, onStop s)
      else (False, s))"

subsection \<open>Construction\<close>

text \<open>
  The constructor zeroes \<open>status_\<close> and the 128-element name buffer, copies the name
  with \<open>wcscpy_s\<close>, creates the quit event (manual reset, unsignalled) and fills in
  the status.  The logger member is built by the template argument's constructor; the
  logger it yields is the parameter \<open>lg\<close>.
\<close>

definition TConsoleService_ctor :: "string \<Rightarrow> Logger \<Rightarrow> crt_error + TConsoleService" where
  "TConsoleService_ctor lpszServiceName lg =
     (case wcscpy_s (ZeroMemory 128) lpszServiceName of
        Inl e \<Rightarrow> Inl e
      | Inr name \<Rightarrow>
          Inr \<lparr>szServiceName = name,
               hServiceStatus = None,
               hEventQuit = False,
               status = \<lparr>dwServiceType = SERVICE_WIN32_OWN_PROCESS,
                         dwCurrentState = SERVICE_STOPPED,
                         dwControlsAccepted = 0,
                         dwWin32ExitCode = 0,
                         dwServiceSpecificExitCode = 0,
                         dwCheckPoint = 0,
                         dwWaitHint = 0\<rparr>,
               fDebugMode = False,
               logger = lg,
               os_calls = []\<rparr>)"

subsection \<open>The environment of a run\<close>

text \<open>
  What the operating system contributes to one run of \<open>start\<close>: the command line as
  \<open>CommandLineToArgvW\<close> splits it; the outcome of \<open>StartServiceCtrlDispatcherW\<close>
  (\<open>Some e\<close>: it returned 0 and \<open>GetLastError\<close> is \<open>e\<close>; \<open>None\<close>: it connected,
  ran the entry sequence and returned non-zero); the handle returned by
  \<open>RegisterServiceCtrlHandlerEx\<close> (\<open>None\<close> is \<open>NULL\<close>); and the control requests and
  console signals that arrive, in order, while the work body waits for the quit event.
\<close>

datatype delivery = Control DWORD DWORD nat | ConsoleSignal DWORD

record os_env =
  CommandLineToArgvW :: "string list"
  StartServiceCtrlDispatcherW :: "DWORD option"
  RegisterServiceCtrlHandlerEx :: "nat option"
  deliveries :: "delivery list"

text \<open>
  The dispatcher calls the control handler only once it is registered, and the console
  calls the console handler only once it is installed, which the entry sequence does in
  debug mode.
\<close>

fun deliver :: "delivery \<Rightarrow> TConsoleService \<Rightarrow> TConsoleService" where
  "deliver (Control dwControl dwEventType lpEventData) s =
     (if hServiceStatus s \<noteq> None
      then snd (serviceControlHandlerEx dwControl dwEventType lpEventData s) else s)"
| "deliver (ConsoleSignal dwCtrlType) s =
     (if fDebugMode s then snd (consoleCtrlHandler dwCtrlType s) else s)"

text \<open>
  \<open>::WaitForSingleObject(hEventQuit_, INFINITE)\<close>: returns as soon as the event is
  signalled; until then the deliveries of the environment are handled one by one.  When
  they run out with the event still unsignalled the wait never returns (\<open>None\<close>).
\<close>

fun WaitForSingleObject :: "delivery list \<Rightarrow> TConsoleService \<Rightarrow> TConsoleService option" where
  "WaitForSingleObject [] s = (if hEventQuit s then Some s else None)"
| "WaitForSingleObject (d # ds) s =
     (if hEventQuit s then Some s else WaitForSingleObject ds (deliver d s))"

subsection \<open>The work body, the entry sequence and start\<close>

text \<open>
  \<open>run\<close> is virtual.  A work body takes the environment and the controller and
  returns its exit code with the controller it leaves, or never returns.  \<open>run\<close> below
  is the default implementation.
\<close>

type_synonym work_body = "os_env \<Rightarrow> TConsoleService \<Rightarrow> (DWORD \<times> TConsoleService) option"

definition run :: work_body where
  "run env s =
     (case WaitForSingleObject (deliveries env) (setServiceStatus SERVICE_RUNNING s) of
        None \<Rightarrow> None
      | Some s' \<Rightarrow> Some (0, s'))"

text \<open>Lines 179 to 188 of the entry sequence, reached when no registration failed.\<close>

definition serviceMain_body :: "work_body \<Rightarrow> os_env \<Rightarrow> TConsoleService \<Rightarrow> TConsoleService option" where
  "serviceMain_body body env s =
     (let s1 = setServiceStatus SERVICE_START_PENDING s;
          s2 = s1\<lparr>status := (status s1)\<lparr>dwWin32ExitCode := S_OK\<rparr>\<rparr>;
          s3 = s2\<lparr>status := (status s2)\<lparr>dwCheckPoint := 0\<rparr>\<rparr>;
          s4 = s3\<lparr>status := (status s3)\<lparr>dwWaitHint := 0\<rparr>\<rparr>
      in case body env s4 of
           None \<Rightarrow> None
         | Some (ret, s5) \<Rightarrow>
             Some (setServiceStatus SERVICE_STOPPED
                     (s5\<lparr>status := (status s5)\<lparr>dwWin32ExitCode := ret\<rparr>\<rparr>)))"

definition serviceMain :: "work_body \<Rightarrow> os_env \<Rightarrow> TConsoleService \<Rightarrow> TConsoleService option" where
  "serviceMain body env s =
     (let s1 = s\<lparr>status := (status s)\<lparr>dwCurrentState := SERVICE_START_PENDING\<rparr>\<rparr>
      in if isDebugMode s1
         then serviceMain_body body env
                (s1\<lparr>os_calls := os_calls s1 @
                    [SetConsoleCtrlHandler_call,
                     putws_call ''Press Ctrl+C or Ctrl+Break to quit...'']\<rparr>)
         else (let s2 = s1\<lparr>hServiceStatus := RegisterServiceCtrlHandlerEx env\<rparr>
               in if hServiceStatus s2 = None then Some s2
                  else serviceMain_body body env s2))"

text \<open>
  The debug flag: an argument that starts with \<open>/\<close> or \<open>-\<close> and whose rest equals
  \<open>debug\<close> without regard to case (\<open>_wcsicmp\<close>).  The first character of an empty
  argument is its terminator.
\<close>

definition towlower :: "char \<Rightarrow> char" where
  "towlower c =
     (let n = (of_char c :: nat) in if 65 \<le> n \<and> n \<le> 90 then char_of (n + 32) else c)"

definition wcsicmp_eq :: "string \<Rightarrow> string \<Rightarrow> bool" where
  "wcsicmp_eq a b = (map towlower a = map towlower b)"

definition is_debug_arg :: "string \<Rightarrow> bool" where
  "is_debug_arg lpszArg =
     (case lpszArg of
        [] \<Rightarrow> False
      | c # rest \<Rightarrow> (c = CHR ''/'' \<or> c = CHR ''-'') \<and> wcsicmp_eq rest ''debug'')"

definition start :: "work_body \<Rightarrow> os_env \<Rightarrow> TConsoleService \<Rightarrow> (DWORD \<times> TConsoleService) option" where
  "start body env s =
     (let s1 = fold (\<lambda>lpszArg s'. if is_debug_arg lpszArg then s'\<lparr>fDebugMode := True\<rparr> else s')
                 (CommandLineToArgvW env) s
      in if fDebugMode s1
         then (case serviceMain body env s1 of
                 None \<Rightarrow> None
               | Some s2 \<Rightarrow> Some (dwWin32ExitCode (status s2), s2))
         else (case StartServiceCtrlDispatcherW env of
                 Some err \<Rightarrow>
                   (let s2 = s1\<lparr>status := (status s1)\<lparr>dwWin32ExitCode := err\<rparr>\<rparr>
                    in Some (dwWin32ExitCode (status s2), s2))
               | None \<Rightarrow>
                   (case serviceMain body env s1 of
                      None \<Rightarrow> None
                    | Some s2 \<Rightarrow> Some (dwWin32ExitCode (status s2), s2))))"

subsection \<open>Sequences of requests\<close>

text \<open>
  A request made of the controller after construction: a call of the public
  \<open>setServiceStatus\<close>, a control code handed to the control handler, or a console
  signal handed to the console handler.
\<close>

datatype request = SetState DWORD | ControlCode DWORD DWORD nat | ConsoleCtrl DWORD

fun request_step :: "request \<Rightarrow> TConsoleService \<Rightarrow> TConsoleService" where
  "request_step (SetState dwState) s = setServiceStatus dwState s"
| "request_step (ControlCode dwControl dwEventType lpEventData) s =
     snd (serviceControlHandlerEx dwControl dwEventType lpEventData s)"
| "request_step (ConsoleCtrl dwCtrlType) s = snd (consoleCtrlHandler dwCtrlType s)"

definition requests :: "request list \<Rightarrow> TConsoleService \<Rightarrow> TConsoleService" where
  "requests rs s = fold request_step rs s"

text \<open>
  The invariant of the accepted controls: none while the state is \<open>START_PENDING\<close>;
  at least Stop in every state other than \<open>START_PENDING\<close> and \<open>STOPPED\<close>.
\<close>

definition controls_invariant :: "TConsoleService \<Rightarrow> bool" where
  "controls_invariant s =
     ((dwCurrentState (status s) = SERVICE_START_PENDING
         \<longrightarrow> dwControlsAccepted (status s) = 0)
      \<and> (dwCurrentState (status s) \<noteq> SERVICE_START_PENDING
           \<and> dwCurrentState (status s) \<noteq> SERVICE_STOPPED
         \<longrightarrow> dwControlsAccepted (status s) AND SERVICE_ACCEPT_STOP = SERVICE_ACCEPT_STOP))"

subsection \<open>Concrete controllers and environments\<close>

text \<open>
  The controller that \<open>TConsoleService(L"demo")\<close> constructs around a release-build
  logger, and the same controller once \<open>setServiceStatus(SERVICE_RUNNING)\<close> has been
  called on it.
\<close>

definition demo :: TConsoleService where
  "demo = projr (TConsoleService_ctor ''demo'' (Logger_ctor False))"

definition demo_running :: TConsoleService where
  "demo_running = setServiceStatus SERVICE_RUNNING demo"

text \<open>
  Four environments: started by the service manager with the control handler
  registered under handle 7 and one Stop request arriving; started by the service
  manager with the handler registration failing; started from a console without the
  debug flag, so that the dispatcher cannot connect (error 1063); started from a
  console with the debug flag and Ctrl+C pressed.
\<close>

definition env_service :: os_env where
  "env_service =
     \<lparr>CommandLineToArgvW = [''svc.exe''],
      StartServiceCtrlDispatcherW = None,
      RegisterServiceCtrlHandlerEx = Some 7,
      deliveries = [Control SERVICE_CONTROL_STOP 0 0]\<rparr>"

definition env_handler_fails :: os_env where
  "env_handler_fails =
     \<lparr>CommandLineToArgvW = [''svc.exe''],
      StartServiceCtrlDispatcherW = None,
      RegisterServiceCtrlHandlerEx = None,
      deliveries = []\<rparr>"

definition env_no_dispatcher :: os_env where
  "env_no_dispatcher =
     \<lparr>CommandLineToArgvW = [''svc.exe''],
      StartServiceCtrlDispatcherW = Some 1063,
      RegisterServiceCtrlHandlerEx = None,
      deliveries = []\<rparr>"

definition env_debug :: os_env where
  "env_debug =
     \<lparr>CommandLineToArgvW = [''svc.exe'', ''/DEBUG''],
      StartServiceCtrlDispatcherW = Some 1063,
      RegisterServiceCtrlHandlerEx = None,
      deliveries = [ConsoleSignal CTRL_C_EVENT]\<rparr>"

text \<open>A derived class whose \<open>run\<close> returns 5 at once.\<close>

definition run_returns_5 :: work_body where
  "run_returns_5 env s = Some (5, s)"

section \<open>Facts about the platform constants\<close>

lemmas sdk_defs =
  SERVICE_STOPPED_def SERVICE_START_PENDING_def SERVICE_STOP_PENDING_def
  SERVICE_RUNNING_def SERVICE_CONTINUE_PENDING_def SERVICE_PAUSE_PENDING_def
  SERVICE_PAUSED_def SERVICE_ACCEPT_STOP_def SERVICE_WIN32_OWN_PROCESS_def
  SERVICE_CONTROL_STOP_def SERVICE_CONTROL_PAUSE_def SERVICE_CONTROL_CONTINUE_def
  SERVICE_CONTROL_INTERROGATE_def SERVICE_CONTROL_SHUTDOWN_def
  SERVICE_CONTROL_DEVICEEVENT_def SERVICE_CONTROL_HARDWAREPROFILECHANGE_def
  SERVICE_CONTROL_POWEREVENT_def SERVICE_CONTROL_SESSIONCHANGE_def
  SERVICE_CONTROL_PRESHUTDOWN_def CTRL_C_EVENT_def CTRL_BREAK_EVENT_def
  CTRL_CLOSE_EVENT_def CTRL_LOGOFF_EVENT_def CTRL_SHUTDOWN_EVENT_def NO_ERROR_def S_OK_def

section \<open>Console signals and the Stop control\<close>

text \<open>
  Claim C2.  Each of the console signals Ctrl+C, Ctrl+Break and console shutdown runs
  \<open>onStop\<close>, exactly as the Stop control does: from one and the same controller state
  the two handlers leave the same state behind (the service state is \<open>STOP_PENDING\<close>,
  Stop is among the accepted controls, the quit event is signalled) and the console
  handler answers \<open>TRUE\<close>.  A controller in debug mode and the same controller in
  service mode end with the same status and the same quit event; they differ only in
  the report to the dispatcher, which debug mode does not make.  Any other console
  signal is answered \<open>FALSE\<close> and the controller is left as it was.
\<close>

theorem console_signal_is_stop:
  "consoleCtrlHandler CTRL_C_EVENT s = (True, onStop s)
   \<and> consoleCtrlHandler CTRL_BREAK_EVENT s = (True, onStop s)
   \<and> consoleCtrlHandler CTRL_SHUTDOWN_EVENT s = (True, onStop s)
   \<and> serviceControlHandlerEx SERVICE_CONTROL_STOP dwEventType lpEventData s
       = (NO_ERROR, onStop s)
   \<and> dwCurrentState (status (onStop s)) = SERVICE_STOP_PENDING
   \<and> dwControlsAccepted (status (onStop s))
       = dwControlsAccepted (status s) OR SERVICE_ACCEPT_STOP
   \<and> hEventQuit (onStop s)
   \<and> status (onStop (s\<lparr>fDebugMode := True\<rparr>)) = status (onStop (s\<lparr>fDebugMode := False\<rparr>))
   \<and> hEventQuit (onStop (s\<lparr>fDebugMode := True\<rparr>))
       = hEventQuit (onStop (s\<lparr>fDebugMode := False\<rparr>))
   \<and> consoleCtrlHandler dwCtrlType s
       = (if dwCtrlType \<in> {CTRL_C_EVENT, CTRL_BREAK_EVENT, CTRL_SHUTDOWN_EVENT}
          then (True, onStop s) else (False, s))"
  by (simp add: consoleCtrlHandler_def serviceControlHandlerEx_def onStop_def SetEvent_def
      setServiceStatus_def isDebugMode_def Let_def sdk_defs)

section \<open>Facts about the concrete controllers\<close>

lemma demo_ctor: "TConsoleService_ctor ''demo'' (Logger_ctor False) = Inr demo"
  by (simp add: demo_def TConsoleService_ctor_def wcscpy_s_def ZeroMemory_def)

lemma demo_fields:
  "hServiceStatus demo = None" "hEventQuit demo = False" "fDebugMode demo = False"
  "os_calls demo = []" "logger demo = Logger_ctor False"
  "dwCurrentState (status demo) = SERVICE_STOPPED"
  "dwControlsAccepted (status demo) = 0"
  "dwWin32ExitCode (status demo) = 0"
  by (simp_all add: demo_def TConsoleService_ctor_def wcscpy_s_def ZeroMemory_def)

lemma demo_running_fields:
  "hEventQuit demo_running = False" "fDebugMode demo_running = False"
  "dwCurrentState (status demo_running) = SERVICE_RUNNING"
  "dwControlsAccepted (status demo_running) = SERVICE_ACCEPT_STOP"
  "length (os_calls demo_running) = 1"
  "count_list (os_calls demo_running) SetEvent_call = 0"
  by (simp_all add: demo_running_def setServiceStatus_def isDebugMode_def Let_def demo_fields
      sdk_defs)

section \<open>The Stop control, once and twice\<close>

lemma onStop_os_calls:
  "os_calls (onStop s) = os_calls s @
     (if fDebugMode s then []
      else [SetServiceStatus_call (hServiceStatus s) (status (onStop s))])
     @ [SetEvent_call]"
  by (simp add: onStop_def SetEvent_def setServiceStatus_def isDebugMode_def Let_def)

lemma onStop_onStop:
  "onStop (onStop s) = (onStop s)\<lparr>os_calls := os_calls (onStop s) @
     (if fDebugMode s then []
      else [SetServiceStatus_call (hServiceStatus s) (status (onStop s))])
     @ [SetEvent_call]\<rparr>"
  by (simp add: onStop_def SetEvent_def setServiceStatus_def isDebugMode_def Let_def sdk_defs)

text \<open>
  Claim C1, as the code has it.  The Stop control runs \<open>onStop\<close> and returns
  \<open>NO_ERROR\<close>: the state becomes \<open>STOP_PENDING\<close> (reported to the dispatcher in
  service mode) and after that \<open>SetEvent\<close> is called on the quit event, which is
  signalled from then on.  A second Stop returns \<open>NO_ERROR\<close> too and leaves every
  member of the controller as the first one left it, the state \<open>STOP_PENDING\<close> and the
  quit event signalled; but it does repeat the calls: the state is reported again in
  service mode and \<open>SetEvent\<close> is called a second time on the event that is already
  signalled.
\<close>

theorem stop_control_repeated:
  "serviceControlHandlerEx SERVICE_CONTROL_STOP dwEventType lpEventData s
     = (NO_ERROR, onStop s)
   \<and> dwCurrentState (status (onStop s)) = SERVICE_STOP_PENDING
   \<and> hEventQuit (onStop s)
   \<and> os_calls (onStop s) = os_calls s @
        (if fDebugMode s then []
         else [SetServiceStatus_call (hServiceStatus s) (status (onStop s))])
        @ [SetEvent_call]
   \<and> serviceControlHandlerEx SERVICE_CONTROL_STOP dwEventType' lpEventData' (onStop s)
       = (NO_ERROR,
          (onStop s)\<lparr>os_calls := os_calls (onStop s) @
             (if fDebugMode s then []
              else [SetServiceStatus_call (hServiceStatus s) (status (onStop s))])
             @ [SetEvent_call]\<rparr>)"
proof -
  have handler: "serviceControlHandlerEx SERVICE_CONTROL_STOP et ed t = (NO_ERROR, onStop t)"
    for et ed t
    by (simp add: serviceControlHandlerEx_def)
  have state: "dwCurrentState (status (onStop s)) = SERVICE_STOP_PENDING"
    by (simp add: onStop_def SetEvent_def setServiceStatus_def isDebugMode_def Let_def sdk_defs)
  have quit: "hEventQuit (onStop s)"
    by (simp add: onStop_def SetEvent_def)
  show ?thesis
    unfolding handler using state quit onStop_os_calls [of s] onStop_onStop [of s] by simp
qed

text \<open>
  The claim as stated fails: Stop delivered twice to the running controller calls
  \<open>SetEvent\<close> on the quit event twice, not once.
\<close>

theorem stop_twice_sets_event_twice:
  "dwCurrentState (status demo_running) = SERVICE_RUNNING
   \<and> count_list (os_calls (snd (serviceControlHandlerEx SERVICE_CONTROL_STOP 0 0
         (snd (serviceControlHandlerEx SERVICE_CONTROL_STOP 0 0 demo_running)))))
       SetEvent_call = 2"
  by (simp add: serviceControlHandlerEx_def onStop_os_calls onStop_onStop demo_running_fields)

section \<open>The accepted controls\<close>

lemma setServiceStatus_status:
  "dwCurrentState (status (setServiceStatus dwState s)) = dwState"
  "dwControlsAccepted (status (setServiceStatus dwState s)) =
     (if dwState = SERVICE_START_PENDING then 0
      else dwControlsAccepted (status s) OR SERVICE_ACCEPT_STOP)"
  by (simp_all add: setServiceStatus_def Let_def)

lemma controls_invariant_status:
  "status s = status t \<Longrightarrow> controls_invariant s = controls_invariant t"
  by (simp add: controls_invariant_def)

lemma controls_invariant_setServiceStatus: "controls_invariant (setServiceStatus dwState s)"
  by (simp add: controls_invariant_def setServiceStatus_status sdk_defs)

lemma status_onStop: "status (onStop s) = status (setServiceStatus SERVICE_STOP_PENDING s)"
  by (simp add: onStop_def SetEvent_def)

lemma status_request_step:
  "status (request_step r s) = status s
   \<or> (\<exists>dwState. status (request_step r s) = status (setServiceStatus dwState s))"
proof (cases r)
  case (SetState d)
  then show ?thesis by auto
next
  case (ControlCode c et ed)
  then show ?thesis
    by (auto simp: serviceControlHandlerEx_def status_onStop onPause_def onContinue_def
        onInterrogate_def onPreShutdown_def onShutdown_def onDeviceEvent_def
        onHardwareProfileChange_def onSessionChange_def onPowerEvent_def onUnknownRequest_def)
next
  case (ConsoleCtrl c)
  then show ?thesis
    by (auto simp: consoleCtrlHandler_def status_onStop)
qed

lemma controls_invariant_request_step:
  assumes "controls_invariant s"
  shows "controls_invariant (request_step r s)"
proof -
  from status_request_step [of r s] show ?thesis
  proof
    assume "status (request_step r s) = status s"
    then have "controls_invariant (request_step r s) = controls_invariant s"
      by (rule controls_invariant_status)
    with assms show ?thesis by simp
  next
    assume "\<exists>dwState. status (request_step r s) = status (setServiceStatus dwState s)"
    then obtain d where "status (request_step r s) = status (setServiceStatus d s)" ..
    then have "controls_invariant (request_step r s) = controls_invariant (setServiceStatus d s)"
      by (rule controls_invariant_status)
    then show ?thesis by (simp add: controls_invariant_setServiceStatus)
  qed
qed

lemma controls_invariant_fold:
  "controls_invariant s \<Longrightarrow> controls_invariant (fold request_step rs s)"
  by (induction rs arbitrary: s) (simp_all add: controls_invariant_request_step)

lemma controls_invariant_ctor:
  assumes "TConsoleService_ctor lpszServiceName lg = Inr s0"
  shows "controls_invariant s0"
  using assms
  by (auto simp: TConsoleService_ctor_def controls_invariant_def sdk_defs split: sum.splits)

text \<open>
  Claim C3, as the code has it.  After construction, whatever sequence of
  \<open>setServiceStatus\<close> calls, control codes and console signals is carried out, no
  control is accepted while the state is \<open>START_PENDING\<close>, and Stop is accepted in
  every state other than \<open>START_PENDING\<close> and \<open>STOPPED\<close>.  Every call of
  \<open>setServiceStatus\<close> stores the state and recomputes the accepted controls; and each
  of these requests either leaves the status alone or changes it as a call of
  \<open>setServiceStatus\<close> does.  (The entry sequence is not among these requests: it
  stores \<open>START_PENDING\<close> by a plain assignment first.)
\<close>

theorem controls_invariant_requests:
  assumes "TConsoleService_ctor lpszServiceName lg = Inr s0"
  shows "controls_invariant (requests rs s0)
     \<and> dwCurrentState (status (setServiceStatus dwState s)) = dwState
     \<and> dwControlsAccepted (status (setServiceStatus dwState s)) =
         (if dwState = SERVICE_START_PENDING then 0
          else dwControlsAccepted (status s) OR SERVICE_ACCEPT_STOP)
     \<and> (status (request_step r s) = status s
        \<or> (\<exists>dwState'. status (request_step r s) = status (setServiceStatus dwState' s)))"
proof -
  from assms have "controls_invariant s0" by (rule controls_invariant_ctor)
  then have "controls_invariant (requests rs s0)"
    unfolding requests_def by (rule controls_invariant_fold)
  with setServiceStatus_status [of dwState s] status_request_step [of r s]
  show ?thesis by simp
qed

theorem controls_invariant_requests_witness:
  "TConsoleService_ctor ''demo'' (Logger_ctor False) = Inr demo
   \<and> dwCurrentState (status (requests [SetState SERVICE_START_PENDING] demo))
       = SERVICE_START_PENDING
   \<and> dwControlsAccepted (status (requests [SetState SERVICE_START_PENDING] demo)) = 0
   \<and> dwCurrentState (status (requests
         [SetState SERVICE_START_PENDING, SetState SERVICE_RUNNING,
          ControlCode SERVICE_CONTROL_STOP 0 0] demo))
       = SERVICE_STOP_PENDING
   \<and> dwControlsAccepted (status (requests
         [SetState SERVICE_START_PENDING, SetState SERVICE_RUNNING,
          ControlCode SERVICE_CONTROL_STOP 0 0] demo)) AND SERVICE_ACCEPT_STOP
       = SERVICE_ACCEPT_STOP"
proof -
  let ?a = "requests [SetState SERVICE_START_PENDING] demo"
  let ?b = "requests [SetState SERVICE_START_PENDING, SetState SERVICE_RUNNING,
          ControlCode SERVICE_CONTROL_STOP 0 0] demo"
  have sa: "dwCurrentState (status ?a) = SERVICE_START_PENDING"
    by (simp add: requests_def setServiceStatus_status)
  have sb: "dwCurrentState (status ?b) = SERVICE_STOP_PENDING"
    by (simp add: requests_def serviceControlHandlerEx_def status_onStop setServiceStatus_status)
  from controls_invariant_requests [OF demo_ctor, of "[SetState SERVICE_START_PENDING]"]
  have ia: "controls_invariant ?a" by simp
  from controls_invariant_requests [OF demo_ctor, of "[SetState SERVICE_START_PENDING,
     SetState SERVICE_RUNNING, ControlCode SERVICE_CONTROL_STOP 0 0]"]
  have ib: "controls_invariant ?b" by simp
  from ia sa have ca: "dwControlsAccepted (status ?a) = 0"
    by (simp add: controls_invariant_def)
  from ib sb have cb: "dwControlsAccepted (status ?b) AND SERVICE_ACCEPT_STOP = SERVICE_ACCEPT_STOP"
    by (simp add: controls_invariant_def sdk_defs)
  from demo_ctor sa ca sb cb show ?thesis by simp
qed

text \<open>
  The claim as stated fails in its last part.  The entry sequence changes the state
  without \<open>setServiceStatus\<close>: in service mode with the handler registration failing it
  takes the constructed controller from \<open>STOPPED\<close> to \<open>START_PENDING\<close> and no
  status report goes out, and entered after \<open>setServiceStatus(SERVICE_RUNNING)\<close> it
  leaves the state \<open>START_PENDING\<close> with Stop still accepted.
\<close>

theorem entry_sequence_bypasses_setServiceStatus:
  "map_option (dwCurrentState \<circ> status) (serviceMain run env_handler_fails demo)
     = Some SERVICE_START_PENDING
   \<and> map_option os_calls (serviceMain run env_handler_fails demo) = Some []
   \<and> map_option (dwCurrentState \<circ> status)
        (serviceMain run env_handler_fails (requests [SetState SERVICE_RUNNING] demo))
     = Some SERVICE_START_PENDING
   \<and> map_option (dwControlsAccepted \<circ> status)
        (serviceMain run env_handler_fails (requests [SetState SERVICE_RUNNING] demo))
     = Some SERVICE_ACCEPT_STOP
   \<and> map_option controls_invariant
        (serviceMain run env_handler_fails (requests [SetState SERVICE_RUNNING] demo))
     = Some False"
  by (simp add: serviceMain_def isDebugMode_def Let_def env_handler_fails_def requests_def
      setServiceStatus_def demo_fields controls_invariant_def sdk_defs)

section \<open>The entry sequence and the exit code of start\<close>

lemma fold_debug_flag:
  "fold (\<lambda>lpszArg s'. if P lpszArg then s'\<lparr>fDebugMode := True\<rparr> else s') as s
     = s\<lparr>fDebugMode := fDebugMode s \<or> list_ex P as\<rparr>"
  by (induction as arbitrary: s) auto

lemma serviceMain_handler_fails:
  assumes "\<not> fDebugMode s" and "RegisterServiceCtrlHandlerEx env = None"
  shows "serviceMain body env s =
     Some (s\<lparr>hServiceStatus := None,
             status := (status s)\<lparr>dwCurrentState := SERVICE_START_PENDING\<rparr>\<rparr>)"
  using assms by (simp add: serviceMain_def isDebugMode_def Let_def)

lemma serviceMain_body_exit:
  "\<exists>s4. map_option (\<lambda>s2. (dwWin32ExitCode (status s2), s2)) (serviceMain_body body env t) =
     (case body env s4 of
        None \<Rightarrow> None
      | Some (ret, s5) \<Rightarrow>
          Some (ret, setServiceStatus SERVICE_STOPPED
                       (s5\<lparr>status := (status s5)\<lparr>dwWin32ExitCode := ret\<rparr>\<rparr>)))"
proof -
  define s4 where "s4 = (setServiceStatus SERVICE_START_PENDING t)
      \<lparr>status := status (setServiceStatus SERVICE_START_PENDING t)
         \<lparr>dwWin32ExitCode := S_OK, dwCheckPoint := 0, dwWaitHint := 0\<rparr>\<rparr>"
  have "map_option (\<lambda>s2. (dwWin32ExitCode (status s2), s2)) (serviceMain_body body env t) =
       (case body env s4 of
          None \<Rightarrow> None
        | Some (ret, s5) \<Rightarrow>
            Some (ret, setServiceStatus SERVICE_STOPPED
                         (s5\<lparr>status := (status s5)\<lparr>dwWin32ExitCode := ret\<rparr>\<rparr>)))"
    by (cases "body env s4") (auto simp: serviceMain_body_def Let_def s4_def setServiceStatus_def)
  then show ?thesis ..
qed

lemma start_unfolded:
  "start body env s =
     (let s1 = s\<lparr>fDebugMode := fDebugMode s \<or> list_ex is_debug_arg (CommandLineToArgvW env)\<rparr>
      in if fDebugMode s1
         then map_option (\<lambda>s2. (dwWin32ExitCode (status s2), s2)) (serviceMain body env s1)
         else (case StartServiceCtrlDispatcherW env of
                 Some err \<Rightarrow> Some (err, s1\<lparr>status := (status s1)\<lparr>dwWin32ExitCode := err\<rparr>\<rparr>)
               | None \<Rightarrow>
                   map_option (\<lambda>s2. (dwWin32ExitCode (status s2), s2)) (serviceMain body env s1)))"
  by (simp add: start_def fold_debug_flag Let_def split: option.splits)

lemma run_returns_0: "run env s = Some (ret, s') \<Longrightarrow> ret = 0"
  by (auto simp: run_def split: option.splits)

text \<open>
  Claim C4, as the code has it.  \<open>start\<close> has no error outcome, and the value it
  returns falls under three cases.  Without the debug flag, when
  \<open>StartServiceCtrlDispatcherW\<close> fails it is the error code of that failure.  With the
  debug flag, or when the dispatcher connects and the control handler is registered,
  the work body is run and \<open>start\<close> returns what the work body returns (and does not
  return if the work body does not); the default work body returns 0.  When the
  dispatcher connects and the registration of the control handler fails, the work body
  is not run and \<open>start\<close> returns the exit code the controller held before, which is 0
  after construction.
\<close>

theorem start_exit_code:
  fixes body :: work_body
  shows
    "(\<not> (fDebugMode s \<or> list_ex is_debug_arg (CommandLineToArgvW env))
        \<and> StartServiceCtrlDispatcherW env = Some err
      \<longrightarrow> map_option fst (start body env s) = Some err)
   \<and> ((fDebugMode s \<or> list_ex is_debug_arg (CommandLineToArgvW env))
        \<or> (StartServiceCtrlDispatcherW env = None \<and> RegisterServiceCtrlHandlerEx env \<noteq> None)
      \<longrightarrow> (\<exists>s4. start body env s =
             (case body env s4 of
                None \<Rightarrow> None
              | Some (ret, s5) \<Rightarrow>
                  Some (ret, setServiceStatus SERVICE_STOPPED
                               (s5\<lparr>status := (status s5)\<lparr>dwWin32ExitCode := ret\<rparr>\<rparr>)))))
   \<and> (\<not> (fDebugMode s \<or> list_ex is_debug_arg (CommandLineToArgvW env))
        \<and> StartServiceCtrlDispatcherW env = None \<and> RegisterServiceCtrlHandlerEx env = None
      \<longrightarrow> map_option fst (start body' env s) = Some (dwWin32ExitCode (status s)))
   \<and> (run env s = Some (ret, s') \<longrightarrow> ret = 0)"
proof -
  define dbg where "dbg = (fDebugMode s \<or> list_ex is_debug_arg (CommandLineToArgvW env))"
  let ?s1 = "s\<lparr>fDebugMode := dbg\<rparr>"
  let ?exit = "\<lambda>s2. (dwWin32ExitCode (status s2), s2)"
  have st: "start b env s =
     (if dbg then map_option ?exit (serviceMain b env ?s1)
      else (case StartServiceCtrlDispatcherW env of
              Some err \<Rightarrow> Some (err, ?s1\<lparr>status := (status ?s1)\<lparr>dwWin32ExitCode := err\<rparr>\<rparr>)
            | None \<Rightarrow> map_option ?exit (serviceMain b env ?s1)))" for b
    by (simp add: start_unfolded dbg_def Let_def split: option.splits)
  have c1: "\<not> dbg \<and> StartServiceCtrlDispatcherW env = Some err
            \<longrightarrow> map_option fst (start body env s) = Some err"
    by (simp add: st)
  have c3: "\<not> dbg \<and> StartServiceCtrlDispatcherW env = None
               \<and> RegisterServiceCtrlHandlerEx env = None
            \<longrightarrow> map_option fst (start body' env s) = Some (dwWin32ExitCode (status s))"
    by (simp add: st serviceMain_handler_fails)
  have c2: "dbg \<or> (StartServiceCtrlDispatcherW env = None \<and> RegisterServiceCtrlHandlerEx env \<noteq> None)
            \<longrightarrow> (\<exists>s4. start body env s =
                   (case body env s4 of
                      None \<Rightarrow> None
                    | Some (ret, s5) \<Rightarrow>
                        Some (ret, setServiceStatus SERVICE_STOPPED
                                     (s5\<lparr>status := (status s5)\<lparr>dwWin32ExitCode := ret\<rparr>\<rparr>))))"
  proof
    assume a: "dbg \<or> (StartServiceCtrlDispatcherW env = None
                 \<and> RegisterServiceCtrlHandlerEx env \<noteq> None)"
    have "\<exists>t. start body env s = map_option ?exit (serviceMain_body body env t)"
    proof (cases dbg)
      case True
      then show ?thesis
        by (simp add: st serviceMain_def isDebugMode_def Let_def) blast
    next
      case False
      with a show ?thesis
        by (auto simp add: st serviceMain_def isDebugMode_def Let_def)
    qed
    then obtain t where "start body env s = map_option ?exit (serviceMain_body body env t)" ..
    with serviceMain_body_exit [of body env t]
    show "\<exists>s4. start body env s =
            (case body env s4 of
               None \<Rightarrow> None
             | Some (ret, s5) \<Rightarrow>
                 Some (ret, setServiceStatus SERVICE_STOPPED
                              (s5\<lparr>status := (status s5)\<lparr>dwWin32ExitCode := ret\<rparr>\<rparr>)))"
      by simp
  qed
  have c4: "run env s = Some (ret, s') \<longrightarrow> ret = 0"
    by (auto dest: run_returns_0)
  from c1 c2 c3 c4 show ?thesis unfolding dbg_def by blast
qed

lemma is_debug_arg_examples:
  "is_debug_arg ''/DEBUG''" "is_debug_arg ''-debug''" "\<not> is_debug_arg ''svc.exe''"
  "\<not> is_debug_arg ''debug''" "\<not> is_debug_arg ''''"
  by code_simp+

lemma start_debug_ctrl_c: "map_option fst (start run env_debug demo) = Some 0"
  by (simp add: start_unfolded env_debug_def is_debug_arg_examples demo_fields Let_def
      serviceMain_def serviceMain_body_def run_def isDebugMode_def setServiceStatus_def
      consoleCtrlHandler_def onStop_def SetEvent_def sdk_defs)

lemma start_service_stop: "map_option fst (start run_returns_5 env_service demo) = Some 5"
  by (simp add: start_unfolded env_service_def is_debug_arg_examples demo_fields Let_def
      serviceMain_def serviceMain_body_def run_returns_5_def isDebugMode_def
      setServiceStatus_def)

theorem start_exit_code_witness:
  "\<not> (fDebugMode demo \<or> list_ex is_debug_arg (CommandLineToArgvW env_no_dispatcher))
   \<and> StartServiceCtrlDispatcherW env_no_dispatcher = Some 1063
   \<and> map_option fst (start run env_no_dispatcher demo) = Some 1063
   \<and> list_ex is_debug_arg (CommandLineToArgvW env_debug)
   \<and> map_option fst (start run env_debug demo) = Some 0
   \<and> (\<exists>s4. map_option fst (run env_debug s4) = Some 0)
   \<and> \<not> (fDebugMode demo \<or> list_ex is_debug_arg (CommandLineToArgvW env_handler_fails))
   \<and> StartServiceCtrlDispatcherW env_handler_fails = None
   \<and> RegisterServiceCtrlHandlerEx env_handler_fails = None
   \<and> map_option fst (start run env_handler_fails demo) = Some 0"
proof -
  have h1: "\<not> (fDebugMode demo \<or> list_ex is_debug_arg (CommandLineToArgvW env_no_dispatcher))
      \<and> StartServiceCtrlDispatcherW env_no_dispatcher = Some 1063"
    by (simp add: env_no_dispatcher_def demo_fields is_debug_arg_examples)
  have h2: "list_ex is_debug_arg (CommandLineToArgvW env_debug)"
    by (simp add: env_debug_def is_debug_arg_examples)
  have h3: "\<not> (fDebugMode demo \<or> list_ex is_debug_arg (CommandLineToArgvW env_handler_fails))
      \<and> StartServiceCtrlDispatcherW env_handler_fails = None
      \<and> RegisterServiceCtrlHandlerEx env_handler_fails = None"
    by (simp add: env_handler_fails_def demo_fields is_debug_arg_examples)
  from start_exit_code [of demo env_no_dispatcher 1063 run] h1
  have r1: "map_option fst (start run env_no_dispatcher demo) = Some 1063" by blast
  from start_exit_code [of demo env_debug 0 run] h2
  obtain s4 where "start run env_debug demo =
      (case run env_debug s4 of
         None \<Rightarrow> None
       | Some (ret, s5) \<Rightarrow>
           Some (ret, setServiceStatus SERVICE_STOPPED
                        (s5\<lparr>status := (status s5)\<lparr>dwWin32ExitCode := ret\<rparr>\<rparr>)))"
    by blast
  with start_debug_ctrl_c have r2: "map_option fst (run env_debug s4) = Some 0"
    by (auto split: option.splits)
  from start_exit_code [of demo env_handler_fails 0 run run] h3
  have r3: "map_option fst (start run env_handler_fails demo) = Some 0"
    by (simp add: demo_fields)
  from h1 h2 h3 r1 r2 r3 start_debug_ctrl_c show ?thesis by blast
qed

text \<open>
  The claim as stated fails: with the dispatcher connected and the registration of the
  control handler failing, a controller whose work body returns 5 returns 0 from
  \<open>start\<close>, the exit code it was constructed with; under the service manager with the
  handler registered the same controller returns 5.
\<close>

theorem start_without_handler_returns_old_exit_code:
  "StartServiceCtrlDispatcherW env_handler_fails = None
   \<and> map_option fst (run_returns_5 env_handler_fails demo) = Some 5
   \<and> map_option fst (start run_returns_5 env_handler_fails demo) = Some 0
   \<and> map_option fst (start run_returns_5 env_service demo) = Some 5"
proof -
  have "map_option fst (start run_returns_5 env_handler_fails demo) = Some 0"
    by (simp add: start_unfolded env_handler_fails_def is_debug_arg_examples demo_fields Let_def
        serviceMain_handler_fails)
  then show ?thesis
    by (simp add: start_service_stop) (simp add: env_handler_fails_def run_returns_5_def)
qed

section \<open>Failure to register the control handler\<close>

text \<open>
  Claim C9, as the code has it.  In service mode, when
  \<open>RegisterServiceCtrlHandlerEx\<close> returns \<open>NULL\<close> the entry sequence returns with the
  state set to \<open>START_PENDING\<close> and the handle \<open>NULL\<close>, and nothing else changed:
  whatever the work body is, it is not run; no status is reported and no other call to
  the operating system is recorded; nothing is handed to the logger; the exit code and
  the accepted controls stay as they were; the state is not \<open>RUNNING\<close>.
\<close>

theorem serviceMain_without_handler:
  fixes body :: work_body
  assumes "\<not> isDebugMode s" and "RegisterServiceCtrlHandlerEx env = None"
  shows "serviceMain body env s =
           Some (s\<lparr>hServiceStatus := None,
                   status := (status s)\<lparr>dwCurrentState := SERVICE_START_PENDING\<rparr>\<rparr>)
     \<and> map_option os_calls (serviceMain body env s) = Some (os_calls s)
     \<and> map_option logger (serviceMain body env s) = Some (logger s)
     \<and> map_option (dwCurrentState \<circ> status) (serviceMain body env s)
         = Some SERVICE_START_PENDING
     \<and> SERVICE_START_PENDING \<noteq> SERVICE_RUNNING"
  using assms by (simp add: serviceMain_handler_fails isDebugMode_def sdk_defs)

theorem serviceMain_without_handler_witness:
  "\<not> isDebugMode demo \<and> RegisterServiceCtrlHandlerEx env_handler_fails = None
   \<and> serviceMain (\<lambda>env s. None) env_handler_fails demo =
       Some (demo\<lparr>hServiceStatus := None,
                  status := (status demo)\<lparr>dwCurrentState := SERVICE_START_PENDING\<rparr>\<rparr>)
   \<and> map_option os_calls (serviceMain run env_handler_fails demo) = Some []"
proof -
  have h: "\<not> isDebugMode demo" "RegisterServiceCtrlHandlerEx env_handler_fails = None"
    by (simp_all add: isDebugMode_def demo_fields env_handler_fails_def)
  from serviceMain_without_handler [OF h, of "\<lambda>env s. None"]
    serviceMain_without_handler [OF h, of run] h
  show ?thesis by (simp add: demo_fields)
qed

text \<open>
  The claim as stated fails where it says that the failure is logged: the logger of
  the controller, which accepts warnings and errors, has been handed nothing when the
  entry sequence returns.
\<close>

theorem handler_failure_is_not_logged:
  "getLevel (logger demo) = LOG_LEVEL_WARNING
   \<and> map_option (written \<circ> logger) (serviceMain run env_handler_fails demo) = Some []"
  by (simp add: serviceMain_def isDebugMode_def Let_def env_handler_fails_def demo_fields
      getLevel_def Logger_ctor_def)

section \<open>The format of the log\<close>

text \<open>
  Claim C6.  The header line and the record line have the shape the claim gives, but
  the month in the header is \<open>tm_mon\<close> as it stands, which counts from 0: a record
  written on 15 January 2024 is headed \<open>2024/00/15\<close>.  The first write of a logger
  puts the header, the line end and then the record \<open>svc\<close> padded to twelve
  characters, the thread identifier in four and the message, and sets the time of the
  last message; a second write in the same second adds the record only.
\<close>

theorem january_header_has_month_00:
  "tm_mon (localtime_s jan15) = 0
   \<and> getTimeStamp jan15 64 = Inr ''2024/00/15 10:00:00 UTC+330mins''
   \<and> writecomposed jan15 LOG_LEVEL_ERROR ''svc'' ''hello'' (Logger_ctor False)
       = Inr \<lparr>lastmsgtime = time_now jan15, level = LOG_LEVEL_WARNING,
              written = [''2024/00/15 10:00:00 UTC+330mins'', CRLF,
                         ''svc          1234 hello''],
              sync_entered = 1\<rparr>
   \<and> writecomposed jan15 LOG_LEVEL_ERROR ''svc'' ''again''
         \<lparr>lastmsgtime = time_now jan15, level = LOG_LEVEL_WARNING,
          written = [''2024/00/15 10:00:00 UTC+330mins'', CRLF, ''svc          1234 hello''],
          sync_entered = 1\<rparr>
       = Inr \<lparr>lastmsgtime = time_now jan15, level = LOG_LEVEL_WARNING,
              written = [''2024/00/15 10:00:00 UTC+330mins'', CRLF,
                         ''svc          1234 hello'', ''svc          1234 again''],
              sync_entered = 2\<rparr>"
proof -
  have stamp: "getTimeStamp jan15 64 = Inr ''2024/00/15 10:00:00 UTC+330mins''"
    by (simp add: getTimeStamp_def jan15_def Let_def c_div_def fmt_0d_def fmt_d_def
        swprintf_s_def digit_char_def)
  have tid: "fmt_d_width 4 (sint (GetCurrentThreadId jan15)) = ''1234''"
    by (simp add: jan15_def fmt_d_width_def fmt_d_def digit_char_def)
  have tag: "fmt_s_left 12 ''svc'' = ''svc         ''"
    by code_simp
  have first: "writecomposed jan15 LOG_LEVEL_ERROR ''svc'' ''hello'' (Logger_ctor False)
       = Inr \<lparr>lastmsgtime = time_now jan15, level = LOG_LEVEL_WARNING,
              written = [''2024/00/15 10:00:00 UTC+330mins'', CRLF,
                         ''svc          1234 hello''],
              sync_entered = 1\<rparr>"
    by (simp add: writecomposed_def stamp tid Let_def getLevel_def Logger_ctor_def
        LOG_LEVEL_ERROR_def LOG_LEVEL_WARNING_def actualwrite_def swprintf_s_def
        tag MAX_LOG_MESSAGE_LEN_def MAX_TAG_LEN_def)
       (simp add: jan15_def)
  have second: "writecomposed jan15 LOG_LEVEL_ERROR ''svc'' ''again''
         \<lparr>lastmsgtime = time_now jan15, level = LOG_LEVEL_WARNING,
          written = [''2024/00/15 10:00:00 UTC+330mins'', CRLF, ''svc          1234 hello''],
          sync_entered = 1\<rparr>
       = Inr \<lparr>lastmsgtime = time_now jan15, level = LOG_LEVEL_WARNING,
              written = [''2024/00/15 10:00:00 UTC+330mins'', CRLF,
                         ''svc          1234 hello'', ''svc          1234 again''],
              sync_entered = 2\<rparr>"
    by (simp add: writecomposed_def tid Let_def getLevel_def
        LOG_LEVEL_ERROR_def LOG_LEVEL_WARNING_def actualwrite_def swprintf_s_def
        tag MAX_LOG_MESSAGE_LEN_def MAX_TAG_LEN_def)
  have "tm_mon (localtime_s jan15) = 0" by (simp add: jan15_def)
  with stamp first second show ?thesis by blast
qed

section \<open>Messages above the threshold\<close>

text \<open>
  Claim C7.  A write whose level is greater than the level of the logger returns the
  logger as it was, through either overload of \<open>write\<close>: nothing is handed to
  \<open>actualwrite\<close>, the time of the last message is not touched and the critical section
  is not entered.
\<close>

theorem write_above_level:
  assumes "lvl > getLevel lg"
  shows "write_wchar_t pf lvl tag msg lg = Inr lg
     \<and> write_char pf lvl tag msg' lg = Inr lg"
  using assms by (simp add: write_wchar_t_def write_char_def writecomposed_def Let_def)

theorem write_above_level_witness:
  "LOG_LEVEL_DEBUG > getLevel (Logger_ctor False)
   \<and> write_wchar_t jan15 LOG_LEVEL_DEBUG ''svc'' ''hello'' (Logger_ctor False)
       = Inr \<lparr>lastmsgtime = 0, level = LOG_LEVEL_WARNING, written = [], sync_entered = 0\<rparr>
   \<and> write_char jan15 LOG_LEVEL_DEBUG ''svc'' ''hello'' (Logger_ctor False)
       = Inr \<lparr>lastmsgtime = 0, level = LOG_LEVEL_WARNING, written = [], sync_entered = 0\<rparr>"
proof -
  have h: "LOG_LEVEL_DEBUG > getLevel (Logger_ctor False)"
    by (simp add: getLevel_def Logger_ctor_def LOG_LEVEL_DEBUG_def LOG_LEVEL_WARNING_def)
  from write_above_level [OF h, of jan15 "''svc''" "''hello''" "''hello''"] h
  show ?thesis by (simp add: Logger_ctor_def)
qed

section \<open>Truncation of formatted messages\<close>


lemma c_str_terminated: "c_str (xs @ [NUL] @ ys) = c_str xs"
  by (simp add: c_str_def takeWhile_tail)
















section \<open>The tag of a writer\<close>

text \<open>
  Claim C10.  The constructor copies the tag into the array of \<open>MAX_TAG_LEN + 1\<close>
  characters.  A tag of at most \<open>MAX_TAG_LEN\<close> characters is stored whole, followed
  by the terminator, and the array keeps its length; for a longer tag \<open>wcscpy_s\<close>
  takes its failure branch and no writer is constructed, so no tag is ever cut.
\<close>

theorem LogWriter_ctor_tag:
  assumes "length mem = MAX_TAG_LEN + 1"
  shows "(length lpszTag \<le> MAX_TAG_LEN \<longrightarrow>
            (\<exists>w. LogWriter_ctor mem lpszTag = Inr w
               \<and> length (szTag w) = MAX_TAG_LEN + 1
               \<and> take (length lpszTag) (szTag w) = lpszTag
               \<and> szTag w ! length lpszTag = NUL
               \<and> c_str (szTag w) = c_str lpszTag))
     \<and> (MAX_TAG_LEN < length lpszTag \<longrightarrow> LogWriter_ctor mem lpszTag = Inl InvalidParameter)"
proof (intro conjI impI)
  assume le: "length lpszTag \<le> MAX_TAG_LEN"
  let ?buf = "lpszTag @ [NUL] @ drop (length lpszTag + 1) mem"
  from le assms have ctor: "LogWriter_ctor mem lpszTag = Inr \<lparr>szTag = ?buf\<rparr>"
    by (simp add: LogWriter_ctor_def wcscpy_s_def)
  from le assms have len: "length ?buf = MAX_TAG_LEN + 1" by simp
  have nth: "?buf ! length lpszTag = NUL" by (simp add: nth_append)
  have "c_str ?buf = c_str lpszTag" by (rule c_str_terminated)
  with ctor len nth
  show "\<exists>w. LogWriter_ctor mem lpszTag = Inr w
               \<and> length (szTag w) = MAX_TAG_LEN + 1
               \<and> take (length lpszTag) (szTag w) = lpszTag
               \<and> szTag w ! length lpszTag = NUL
               \<and> c_str (szTag w) = c_str lpszTag"
    by simp
next
  assume "MAX_TAG_LEN < length lpszTag"
  with assms show "LogWriter_ctor mem lpszTag = Inl InvalidParameter"
    by (simp add: LogWriter_ctor_def wcscpy_s_def)
qed

theorem LogWriter_ctor_tag_witness:
  "length (ZeroMemory 13) = MAX_TAG_LEN + 1
   \<and> length ''ServiceMain1'' \<le> MAX_TAG_LEN
   \<and> map_sum id (c_str \<circ> szTag) (LogWriter_ctor (ZeroMemory 13) ''ServiceMain1'')
       = Inr ''ServiceMain1''
   \<and> MAX_TAG_LEN < length ''ServiceMain12''
   \<and> LogWriter_ctor (ZeroMemory 13) ''ServiceMain12'' = Inl InvalidParameter"
proof -
  have h: "length (ZeroMemory 13) = MAX_TAG_LEN + 1"
    by (simp add: ZeroMemory_def MAX_TAG_LEN_def)
  have l1: "length ''ServiceMain1'' \<le> MAX_TAG_LEN" and l2: "MAX_TAG_LEN < length ''ServiceMain12''"
    by (simp_all add: MAX_TAG_LEN_def)
  have nul: "c_str ''ServiceMain1'' = ''ServiceMain1''"
    by (simp add: c_str_def NUL_def)
  from LogWriter_ctor_tag [OF h, of "''ServiceMain1''"] l1
  obtain w where "LogWriter_ctor (ZeroMemory 13) ''ServiceMain1'' = Inr w"
    and "c_str (szTag w) = c_str ''ServiceMain1''" by blast
  with nul have r1: "map_sum id (c_str \<circ> szTag) (LogWriter_ctor (ZeroMemory 13) ''ServiceMain1'')
       = Inr ''ServiceMain1''" by simp
  from LogWriter_ctor_tag [OF h, of "''ServiceMain12''"] l2
  have r2: "LogWriter_ctor (ZeroMemory 13) ''ServiceMain12'' = Inl InvalidParameter" by blast
  from h l1 l2 r1 r2 show ?thesis by blast
qed

section \<open>Names of rolled files\<close>





lemma rollname_not_plain:
  "szPath @ szName @ szExt \<noteq> rollname szPath szName szExt i"
proof
  assume "szPath @ szName @ szExt = rollname szPath szName szExt i"
  then have "length (szPath @ szName @ szExt) = length (rollname szPath szName szExt i)"
    by simp
  then show False by (simp add: rollname_def)
qed

section \<open>Shifting a chain of rolled files\<close>




section \<open>Rollover\<close>











end
